theory Spec2Isabelle
  imports Complex_Main "HOL-Library.Word"
begin

section \<open>Values and errors\<close>

text \<open>
  The wallet backend is a Django application. Its state is two tables (\<open>Wallet\<close> and
  \<open>Transaction\<close>, \<^verbatim>\<open>wallet/models.py\<close>); the code that changes them is
  \<^verbatim>\<open>wallet/services/transactions.py\<close>, called from the request handlers of
  \<^verbatim>\<open>wallet/views.py\<close>. The model passes the database explicitly: every operation takes
  the tables and returns the new ones, or an exception. A \<^verbatim>\<open>transaction.atomic()\<close> block
  that raises leaves the tables as they were, so an operation that fails returns the
  exception only.

  Amounts and balances are \<^verbatim>\<open>Decimal\<close> values; they are modelled as rationals, on which
  \<^verbatim>\<open>+\<close>, \<^verbatim>\<open>-\<close> and \<^verbatim>\<open><\<close> are exact (the column's twelve digits and two places, and the
  database's refusal of a value beyond them, are not modelled). Timestamps and primary
  keys of transactions are left out. The wallet instance a service function is given is
  one its caller loaded from the table. The model is sequential: one request at a time.

  A Python \<^verbatim>\<open>str\<close> is a \<open>string\<close>, one \<open>char\<close> per code point below 256 (which is all an
  HTTP header value holds); raw request bytes are a list of 8-bit words. The values a
  request body, a provider response or a metadata dictionary holds are \<open>pyobj\<close>: what
  \<^verbatim>\<open>json.loads\<close> builds, and \<^verbatim>\<open>Decimal\<close>. A float is carried by the rational it denotes.
\<close>

type_synonym bytes = "8 word list"

datatype pyobj =
    PyNone
  | PyBool bool
  | PyInt int
  | PyFloat rat
  | PyDecimal rat
  | PyStr string
  | PyList "pyobj list"
  | PyDict "(string \<times> pyobj) list"

datatype error =
    DoesNotExist
  | MultipleObjectsReturned
  | IntegrityError
  | ProtectedError
  | AttributeError
  | TypeError
  | ValueError
  | KeyError
  | ValidationError

section \<open>The tables (wallet/models.py)\<close>

text \<open>
  A \<open>Wallet\<close> is a row of the wallet table and, equally, the instance a handler holds
  after \<^verbatim>\<open>Wallet.objects.get\<close>; \<open>user\<close> holds the owner's primary key. A \<open>Transaction\<close>
  row refers to its wallet (and to the recipient wallet of a transfer) by primary key.
  \<open>status\<close> and \<open>transaction_type\<close> are \<^verbatim>\<open>CharField\<close>s: \<^verbatim>\<open>choices\<close> is checked by forms
  and serializers only, never by \<^verbatim>\<open>objects.create\<close>, so the column holds whatever
  string the code writes.
\<close>

record Wallet =
  pk :: nat
  user :: nat
  balance :: rat
  wallet_id :: string
  virtual_account_number :: "string option"
  virtual_bank_name :: "string option"
  virtual_account_reference :: "string option"
  is_active :: bool

record Transaction =
  wallet :: nat
  amount :: rat
  transaction_type :: string
  status :: string
  reference :: string
  narration :: "string option"
  recipient_wallet :: "nat option"
  metadata :: pyobj

record db =
  wallets :: "Wallet list"
  transactions :: "Transaction list"

text \<open>\<^verbatim>\<open>Model.objects.get(...)\<close>: the one row that matches, or an exception.\<close>

definition objects_get :: "('a \<Rightarrow> bool) \<Rightarrow> 'a list \<Rightarrow> error + 'a" where
  "objects_get P rows =
     (case filter P rows of
        [] \<Rightarrow> Inl DoesNotExist
      | [r] \<Rightarrow> Inr r
      | _ \<Rightarrow> Inl MultipleObjectsReturned)"

text \<open>
  \<^verbatim>\<open>Transaction.objects.create(...)\<close> inserts a row; \<open>reference\<close> is \<^verbatim>\<open>unique=True\<close>, so
  a reference some row already has ends in \<^verbatim>\<open>IntegrityError\<close>.
\<close>

definition Transaction_create :: "db \<Rightarrow> Transaction \<Rightarrow> error + db" where
  "Transaction_create d t =
     (if list_ex (\<lambda>r. reference r = reference t) (transactions d) then Inl IntegrityError
      else Inr (d\<lparr>transactions := transactions d @ [t]\<rparr>))"

text \<open>
  \<^verbatim>\<open>Wallet.generate_wallet_id\<close> and \<^verbatim>\<open>Wallet.save\<close>. The ten random characters are the
  argument \<open>random_part\<close>. \<^verbatim>\<open>save\<close> fills an empty \<open>wallet_id\<close>, then writes every field of
  the instance to the row with its primary key (inserting the row when there is none);
  \<open>wallet_id\<close> and \<open>user\<close> are unique columns.
\<close>

definition generate_wallet_id :: "string \<Rightarrow> string" where
  "generate_wallet_id random_part = ''NEXA'' @ random_part"

definition write_row :: "Wallet \<Rightarrow> Wallet list \<Rightarrow> Wallet list" where
  "write_row w rows =
     (if list_ex (\<lambda>r. pk r = pk w) rows
      then map (\<lambda>r. if pk r = pk w then w else r) rows
      else rows @ [w])"

definition Wallet_save :: "string \<Rightarrow> db \<Rightarrow> Wallet \<Rightarrow> error + (Wallet \<times> db)" where
  "Wallet_save random_part d w =
     (let w' = (if wallet_id w = [] then w\<lparr>wallet_id := generate_wallet_id random_part\<rparr>
                else w)
      in if list_ex (\<lambda>r. pk r \<noteq> pk w' \<and> (wallet_id r = wallet_id w' \<or> user r = user w'))
              (wallets d)
         then Inl IntegrityError
         else Inr (w', d\<lparr>wallets := write_row w' (wallets d)\<rparr>))"

section \<open>The transaction service (wallet/services/transactions.py)\<close>

text \<open>
  \<^verbatim>\<open>str.upper\<close> on the ASCII letters (the service applies it to hexadecimal digits and to
  the fixed service names only).
\<close>

definition upper_char :: "char \<Rightarrow> char" where
  "upper_char c =
     (case map_of (zip ''abcdefghijklmnopqrstuvwxyz'' ''ABCDEFGHIJKLMNOPQRSTUVWXYZ'') c of
        None \<Rightarrow> c
      | Some u \<Rightarrow> u)"

definition upper :: "string \<Rightarrow> string" where
  "upper s = map upper_char s"

text \<open>\<^verbatim>\<open>generate_reference\<close>; \<open>uuid_hex\<close> is the value of \<^verbatim>\<open>uuid.uuid4().hex\<close>.\<close>

definition generate_reference :: "string \<Rightarrow> string \<Rightarrow> string" where
  "generate_reference uuid_hex prefix = prefix @ ''-'' @ upper (take 8 uuid_hex)"

text \<open>Python's truth value of an object, as \<^verbatim>\<open>metadata or {}\<close> reads it.\<close>

fun truthy :: "pyobj \<Rightarrow> bool" where
  "truthy PyNone = False"
| "truthy (PyBool b) = b"
| "truthy (PyInt n) = (n \<noteq> 0)"
| "truthy (PyFloat x) = (x \<noteq> 0)"
| "truthy (PyDecimal x) = (x \<noteq> 0)"
| "truthy (PyStr s) = (s \<noteq> [])"
| "truthy (PyList xs) = (xs \<noteq> [])"
| "truthy (PyDict kvs) = (kvs \<noteq> [])"

text \<open>
  \<^verbatim>\<open>create_deposit(wallet, amount, reference=None, metadata=None)\<close>. The amount is the
  \<^verbatim>\<open>Decimal\<close> the caller's serializer produced. There is no check of the amount's sign,
  and the row's status is the literal \<^verbatim>\<open>'SUCCESS'\<close>.
\<close>

definition create_deposit ::
  "string \<Rightarrow> string \<Rightarrow> db \<Rightarrow> Wallet \<Rightarrow> rat \<Rightarrow> string option \<Rightarrow> pyobj
     \<Rightarrow> error + (Transaction \<times> Wallet \<times> db)" where
  "create_deposit uuid_hex random_part d wlt amt ref meta =
     (let reference' =
            (case ref of
               None \<Rightarrow> generate_reference uuid_hex ''DEP''
             | Some r \<Rightarrow> if r = [] then generate_reference uuid_hex ''DEP'' else r);
          txn = \<lparr>wallet = pk wlt, amount = amt, transaction_type = ''DEPOSIT'',
                 status = ''SUCCESS'', reference = reference', narration = None,
                 recipient_wallet = None,
                 metadata = (if truthy meta then meta else PyDict [])\<rparr>
      in case Transaction_create d txn of
           Inl e \<Rightarrow> Inl e
         | Inr d1 \<Rightarrow>
             (case Wallet_save random_part d1 (wlt\<lparr>balance := balance wlt + amt\<rparr>) of
                Inl e \<Rightarrow> Inl e
              | Inr (w', d2) \<Rightarrow> Inr (txn, w', d2)))"

text \<open>
  \<^verbatim>\<open>create_vas_transaction(wallet, amount, service_type, metadata)\<close>. The handlers pass
  the amount as it stands in the request body. \<open>exact\<close> is the number an int, a bool or a
  \<^verbatim>\<open>Decimal\<close> denotes; with any other amount the atomic block is left by an exception (for
  a float: \<^verbatim>\<open>TypeError\<close> at \<^verbatim>\<open>wallet.balance -= amount\<close>, after the insert, which is rolled
  back; the model reports \<open>TypeError\<close> for all of them).
\<close>

fun exact :: "pyobj \<Rightarrow> rat option" where
  "exact (PyBool b) = Some (if b then 1 else 0)"
| "exact (PyInt n) = Some (of_int n)"
| "exact (PyDecimal x) = Some x"
| "exact _ = None"

definition create_vas_transaction ::
  "string \<Rightarrow> string \<Rightarrow> db \<Rightarrow> Wallet \<Rightarrow> pyobj \<Rightarrow> string \<Rightarrow> pyobj
     \<Rightarrow> error + (Transaction \<times> Wallet \<times> db)" where
  "create_vas_transaction uuid_hex random_part d wlt amt service_type meta =
     (let reference' = generate_reference uuid_hex (upper (take 3 service_type))
      in case exact amt of
           None \<Rightarrow> Inl TypeError
         | Some a \<Rightarrow>
             (let txn = \<lparr>wallet = pk wlt, amount = a, transaction_type = service_type,
                         status = ''SUCCESS'', reference = reference', narration = None,
                         recipient_wallet = None, metadata = meta\<rparr>
              in case Transaction_create d txn of
                   Inl e \<Rightarrow> Inl e
                 | Inr d1 \<Rightarrow>
                     (case Wallet_save random_part d1 (wlt\<lparr>balance := balance wlt - a\<rparr>) of
                        Inl e \<Rightarrow> Inl e
                      | Inr (w', d2) \<Rightarrow> Inr (txn, w', d2))))"

text \<open>
  The class \<^verbatim>\<open>TransactionService\<close> ends here: it defines \<^verbatim>\<open>generate_reference\<close>,
  \<^verbatim>\<open>create_deposit\<close> and \<^verbatim>\<open>create_vas_transaction\<close> and nothing else. The handlers of
  \<^verbatim>\<open>views.py\<close> also evaluate \<^verbatim>\<open>TransactionService.create_withdrawal\<close>,
  \<^verbatim>\<open>.complete_withdrawal\<close>, \<^verbatim>\<open>.fail_withdrawal\<close> and \<^verbatim>\<open>.create_transfer\<close>. Looking up a name
  the class does not have raises \<^verbatim>\<open>AttributeError\<close>, before any argument is used.
\<close>

definition create_withdrawal :: "db \<Rightarrow> Wallet \<Rightarrow> rat \<Rightarrow> pyobj \<Rightarrow> error + (Transaction \<times> db)" where
  "create_withdrawal d wlt amt meta = Inl AttributeError"

definition complete_withdrawal :: "db \<Rightarrow> Transaction \<Rightarrow> error + db" where
  "complete_withdrawal d txn = Inl AttributeError"

definition fail_withdrawal :: "db \<Rightarrow> Transaction \<Rightarrow> pyobj \<Rightarrow> error + db" where
  "fail_withdrawal d txn reason = Inl AttributeError"

definition create_transfer ::
  "db \<Rightarrow> Wallet \<Rightarrow> Wallet \<Rightarrow> rat \<Rightarrow> pyobj \<Rightarrow> error + (Transaction \<times> Transaction \<times> db)" where
  "create_transfer d sender_wallet recipient_wallet' amt meta = Inl AttributeError"

section \<open>The payment gateway client (wallet/services/payscribe.py)\<close>

text \<open>
  The provider and the network are the environment. \<open>post url payload headers\<close> stands
  for \<^verbatim>\<open>requests.post(url, json=payload, headers=headers)\<close> once the payload is encoded, and
  says how the call ended:
  \<^item> \<open>RequestFailed e\<close>: it raised a \<^verbatim>\<open>requests.exceptions.RequestException\<close> (connection
    error, timeout, ...) whose text is \<open>e\<close>;
  \<^item> \<open>OtherFailure x\<close>: it raised an exception of another class;
  \<^item> \<open>Responded code err body\<close>: a response with this status code arrived; \<open>err\<close> is the
    text of the \<^verbatim>\<open>HTTPError\<close> that \<^verbatim>\<open>raise_for_status()\<close> raises for a 4xx or 5xx code,
    and \<open>body\<close> is what \<^verbatim>\<open>response.json()\<close> gives: the decoded body, or the text of the
    decoding error (a \<^verbatim>\<open>RequestException\<close> as well, in the library's current versions).
\<close>

datatype http_outcome =
    RequestFailed string
  | OtherFailure error
  | Responded nat string "string + pyobj"

type_synonym transport = "string \<Rightarrow> pyobj \<Rightarrow> (string \<times> string) list \<Rightarrow> http_outcome"

record settings =
  PAYSCRIBE_BASE_URL :: string
  PAYSCRIBE_API_KEY :: string

text \<open>
  \<^verbatim>\<open>requests.post(url, json=payload, ...)\<close> encodes the payload with \<^verbatim>\<open>json.dumps\<close> before it
  connects. A \<^verbatim>\<open>Decimal\<close> anywhere in the payload makes the encoder raise \<^verbatim>\<open>TypeError\<close>,
  which is not a \<^verbatim>\<open>RequestException\<close>: it leaves \<^verbatim>\<open>_make_request\<close> uncaught, and the
  provider is never asked.
\<close>

fun json_encodable :: "pyobj \<Rightarrow> bool" where
  "json_encodable (PyDecimal x) = False"
| "json_encodable (PyList xs) = list_all json_encodable xs"
| "json_encodable (PyDict kvs) = list_all (\<lambda>(k, v). json_encodable v) kvs"
| "json_encodable y = True"

definition make_request :: "transport \<Rightarrow> settings \<Rightarrow> string \<Rightarrow> pyobj \<Rightarrow> error + (bool \<times> pyobj)" where
  "make_request post cfg endpoint payload =
     (let headers = [(''Authorization'', ''Bearer '' @ PAYSCRIBE_API_KEY cfg),
                     (''Content-Type'', ''application/json'')]
      in if \<not> json_encodable payload then Inl TypeError
         else case post (PAYSCRIBE_BASE_URL cfg @ endpoint) payload headers of
           RequestFailed e \<Rightarrow> Inr (False, PyStr e)
         | OtherFailure x \<Rightarrow> Inl x
         | Responded code err body \<Rightarrow>
             if 400 \<le> code \<and> code < 600 then Inr (False, PyStr err)
             else (case body of
                     Inl e \<Rightarrow> Inr (False, PyStr e)
                   | Inr j \<Rightarrow> Inr (True, j)))"

definition create_virtual_account ::
  "transport \<Rightarrow> settings \<Rightarrow> pyobj \<Rightarrow> pyobj \<Rightarrow> error + (bool \<times> pyobj)" where
  "create_virtual_account post cfg user_email wallet_id' =
     (let payload = PyDict [(''customer_email'', user_email), (''wallet_id'', wallet_id'),
                            (''is_permanent'', PyBool True)]
      in make_request post cfg ''/virtual-accounts'' payload)"

text \<open>\<^verbatim>\<open>d[key]\<close> on a dictionary raises \<^verbatim>\<open>KeyError\<close> for a key it does not hold.\<close>

definition dict_item :: "(string \<times> pyobj) list \<Rightarrow> string \<Rightarrow> error + pyobj" where
  "dict_item kvs key = (case map_of kvs key of None \<Rightarrow> Inl KeyError | Some v \<Rightarrow> Inr v)"

definition process_withdrawal ::
  "transport \<Rightarrow> settings \<Rightarrow> pyobj \<Rightarrow> (string \<times> pyobj) list \<Rightarrow> pyobj \<Rightarrow> pyobj
     \<Rightarrow> error + (bool \<times> pyobj)" where
  "process_withdrawal post cfg amt bank_details ref narr =
     (case dict_item bank_details ''bank_code'' of
        Inl e \<Rightarrow> Inl e
      | Inr bank_code \<Rightarrow>
          (case dict_item bank_details ''account_number'' of
             Inl e \<Rightarrow> Inl e
           | Inr account_number \<Rightarrow>
               (case dict_item bank_details ''account_name'' of
                  Inl e \<Rightarrow> Inl e
                | Inr account_name \<Rightarrow>
                    make_request post cfg ''/payouts/bank''
                      (PyDict [(''amount'', amt), (''bank_code'', bank_code),
                               (''account_number'', account_number),
                               (''account_name'', account_name),
                               (''reference'', ref), (''narration'', narr)]))))"

text \<open>
  \<^verbatim>\<open>network.upper()\<close>: only a \<^verbatim>\<open>str\<close> has the method, any other object raises
  \<^verbatim>\<open>AttributeError\<close> there, before a request is made. (\<open>upper\<close> leaves characters outside
  ASCII as they are; what the payload's text is decides nothing below.)
\<close>

definition str_upper :: "pyobj \<Rightarrow> error + pyobj" where
  "str_upper x = (case x of PyStr s \<Rightarrow> Inr (PyStr (upper s)) | _ \<Rightarrow> Inl AttributeError)"

definition buy_airtime ::
  "transport \<Rightarrow> settings \<Rightarrow> pyobj \<Rightarrow> pyobj \<Rightarrow> pyobj \<Rightarrow> error + (bool \<times> pyobj)" where
  "buy_airtime post cfg phone amt network =
     (case str_upper network of
        Inl e \<Rightarrow> Inl e
      | Inr n \<Rightarrow>
          make_request post cfg ''/vas/airtime''
            (PyDict [(''phone_number'', phone), (''amount'', amt), (''network'', n)]))"

definition buy_data ::
  "transport \<Rightarrow> settings \<Rightarrow> pyobj \<Rightarrow> pyobj \<Rightarrow> pyobj \<Rightarrow> error + (bool \<times> pyobj)" where
  "buy_data post cfg phone plan_code network =
     (case str_upper network of
        Inl e \<Rightarrow> Inl e
      | Inr n \<Rightarrow>
          make_request post cfg ''/vas/data''
            (PyDict [(''phone_number'', phone), (''plan_code'', plan_code), (''network'', n)]))"

section \<open>The webhook verifier (wallet/utils.py)\<close>

text \<open>
  \<^verbatim>\<open>hmac.new(key, payload, hashlib.sha256)\<close> is the standard library's; the model takes
  the keyed hash (key and message to the 32 digest bytes) as the parameter \<open>H\<close>, and the
  encoded secret \<^verbatim>\<open>settings.PAYSCRIBE_WEBHOOK_SECRET.encode('utf-8')\<close> as the parameter
  \<open>secret_key\<close>. \<^verbatim>\<open>hexdigest()\<close> writes each digest byte as two lowercase hexadecimal
  digits.
\<close>

definition hex_digit :: "nat \<Rightarrow> char" where
  "hex_digit n = (''0123456789abcdef'') ! (n mod 16)"

definition hex_byte :: "8 word \<Rightarrow> string" where
  "hex_byte b = [hex_digit (unat b div 16), hex_digit (unat b mod 16)]"

definition hexdigest :: "bytes \<Rightarrow> string" where
  "hexdigest bs = concat (map hex_byte bs)"

definition is_ascii :: "string \<Rightarrow> bool" where
  "is_ascii s = list_all (\<lambda>c. of_char c < (128::nat)) s"

text \<open>
  \<^verbatim>\<open>hmac.compare_digest(a, b)\<close> on two \<^verbatim>\<open>str\<close> arguments raises \<^verbatim>\<open>TypeError\<close> unless
  both are ASCII, and otherwise answers whether they are equal (in constant time, which
  the model does not see).
\<close>

definition compare_digest :: "string \<Rightarrow> string \<Rightarrow> error + bool" where
  "compare_digest a b =
     (if is_ascii a \<and> is_ascii b then Inr (a = b) else Inl TypeError)"

definition verify_webhook_signature ::
  "(bytes \<Rightarrow> bytes \<Rightarrow> bytes) \<Rightarrow> bytes \<Rightarrow> bytes \<Rightarrow> string \<Rightarrow> error + bool" where
  "verify_webhook_signature H secret_key payload received_signature =
     (let expected_signature = hexdigest (H secret_key payload)
      in compare_digest expected_signature received_signature)"

section \<open>The request handlers (wallet/views.py)\<close>

text \<open>
  A handler takes the tables and the request and returns the HTTP status of its response
  with the tables after it. An exception that leaves a handler uncaught is answered by
  the framework with status 500. \<open>request_user\<close> is the primary key of the authenticated
  user. Where a handler validates the body with a serializer, the request carries the
  outcome of \<^verbatim>\<open>is_valid(raise_exception=True)\<close>: the validated fields or the exception.
\<close>

text \<open>
  \<^verbatim>\<open>RegisterView.create\<close>, as far as the wallet table goes: after the serializer has
  stored the user (primary key \<open>new_user\<close>), \<^verbatim>\<open>Wallet.objects.create\<close> stores a wallet for
  it with the balance's default, zero, under a primary key the database picks
  (\<open>new_pk\<close>, one no row has). \<open>uuid_str\<close> is \<^verbatim>\<open>str(uuid.uuid4())\<close>. The handler catches
  nothing, and its atomic block undoes the user when the wallet cannot be stored.
\<close>

definition RegisterView_create :: "string \<Rightarrow> db \<Rightarrow> nat \<Rightarrow> nat \<Rightarrow> nat \<times> db" where
  "RegisterView_create uuid_str d new_pk new_user =
     (case Wallet_save [] d
             \<lparr>pk = new_pk, user = new_user, balance = 0,
              wallet_id = ''NEXA'' @ upper (take 8 uuid_str),
              virtual_account_number = None, virtual_bank_name = None,
              virtual_account_reference = None, is_active = True\<rparr> of
        Inl e \<Rightarrow> (500, d)
      | Inr (w, d') \<Rightarrow> (201, d'))"

record DepositWebhook =
  dw_reference :: string
  dw_amount :: rat
  dw_wallet_id :: string
  dw_data :: pyobj

text \<open>
  \<^verbatim>\<open>DepositWebhookView.post\<close>. \<open>signature_header\<close> is the \<^verbatim>\<open>X-Payscribe-Signature\<close> header
  (\<^verbatim>\<open>''\<close> when absent). \<open>parse\<close> stands for \<^verbatim>\<open>json.loads(raw_body.decode('utf-8'))\<close> followed
  by \<^verbatim>\<open>DepositWebhookSerializer\<close>'s validation. The outer \<^verbatim>\<open>except Exception\<close> turns every
  exception but the inner \<^verbatim>\<open>Wallet.DoesNotExist\<close> into status 400.
\<close>

definition DepositWebhookView_post ::
  "(bytes \<Rightarrow> bytes \<Rightarrow> bytes) \<Rightarrow> bytes \<Rightarrow> (bytes \<Rightarrow> error + DepositWebhook) \<Rightarrow> string \<Rightarrow> string
     \<Rightarrow> db \<Rightarrow> bytes \<Rightarrow> string option \<Rightarrow> nat \<times> db" where
  "DepositWebhookView_post H secret_key parse uuid_hex random_part d raw_body signature_header =
     (let received_signature = (case signature_header of None \<Rightarrow> [] | Some s \<Rightarrow> s)
      in case verify_webhook_signature H secret_key raw_body received_signature of
           Inl e \<Rightarrow> (400, d)
         | Inr False \<Rightarrow> (403, d)
         | Inr True \<Rightarrow>
             (case parse raw_body of
                Inl e \<Rightarrow> (400, d)
              | Inr v \<Rightarrow>
                  (case objects_get (\<lambda>r. wallet_id r = dw_wallet_id v) (wallets d) of
                     Inl DoesNotExist \<Rightarrow> (404, d)
                   | Inl e \<Rightarrow> (400, d)
                   | Inr wlt \<Rightarrow>
                       (case create_deposit uuid_hex random_part d wlt (dw_amount v)
                               (Some (dw_reference v))
                               (PyDict [(''source'', PyStr ''virtual_account''),
                                        (''webhook_data'', dw_data v)]) of
                          Inl e \<Rightarrow> (400, d)
                        | Inr (txn, w', d') \<Rightarrow> (200, d')))))"

record Withdrawal =
  wd_amount :: rat
  wd_bank_code :: string
  wd_account_number :: string
  wd_account_name :: string
  wd_narration :: "string option"

text \<open>
  \<^verbatim>\<open>WithdrawalView.post\<close>. Of the exceptions only \<^verbatim>\<open>ValueError\<close> is answered with 400; the
  serializer's \<^verbatim>\<open>ValidationError\<close> is not one, and goes to the last \<^verbatim>\<open>except\<close> with 500.
\<close>

definition status_of_error :: "error \<Rightarrow> nat" where
  "status_of_error e = (if e = ValueError then 400 else 500)"

definition WithdrawalView_post ::
  "transport \<Rightarrow> settings \<Rightarrow> db \<Rightarrow> nat \<Rightarrow> error + Withdrawal \<Rightarrow> nat \<times> db" where
  "WithdrawalView_post post cfg d request_user validated =
     (case objects_get (\<lambda>r. user r = request_user) (wallets d) of
        Inl e \<Rightarrow> (status_of_error e, d)
      | Inr wlt \<Rightarrow>
          (case validated of
             Inl e \<Rightarrow> (status_of_error e, d)
           | Inr v \<Rightarrow>
               (let bank_details = [(''bank_code'', PyStr (wd_bank_code v)),
                                    (''account_number'', PyStr (wd_account_number v)),
                                    (''account_name'', PyStr (wd_account_name v))];
                    narr = PyStr (case wd_narration v of None \<Rightarrow> [] | Some n \<Rightarrow> n)
                in case create_withdrawal d wlt (wd_amount v)
                          (PyDict [(''bank_details'', PyDict bank_details),
                                   (''narration'', narr)]) of
                     Inl e \<Rightarrow> (status_of_error e, d)
                   | Inr (txn, d1) \<Rightarrow>
                       (case process_withdrawal post cfg (PyDecimal (wd_amount v))
                               bank_details (PyStr (reference txn)) narr of
                          Inl e \<Rightarrow> (status_of_error e, d1)
                        | Inr (success, response) \<Rightarrow>
                            if success
                            then (case complete_withdrawal d1 txn of
                                    Inl e \<Rightarrow> (status_of_error e, d1)
                                  | Inr d2 \<Rightarrow> (200, d2))
                            else (case fail_withdrawal d1 txn response of
                                    Inl e \<Rightarrow> (status_of_error e, d1)
                                  | Inr d2 \<Rightarrow> (400, d2))))))"

text \<open>\<^verbatim>\<open>str(n)\<close> of a natural number: its decimal digits.\<close>

fun str_nat :: "nat \<Rightarrow> string" where
  "str_nat n =
     (if n < 10 then [char_of (48 + n)] else str_nat (n div 10) @ [char_of (48 + n mod 10)])"

record Transfer =
  tr_amount :: rat
  tr_recipient_wallet_id :: string
  tr_narration :: "string option"

text \<open>
  \<^verbatim>\<open>TransferView.post\<close>. Two model instances are equal when their primary keys are. The
  inner \<^verbatim>\<open>except Wallet.DoesNotExist\<close> answers 404.
\<close>

definition TransferView_post :: "db \<Rightarrow> nat \<Rightarrow> error + Transfer \<Rightarrow> nat \<times> db" where
  "TransferView_post d request_user validated =
     (case objects_get (\<lambda>r. user r = request_user) (wallets d) of
        Inl e \<Rightarrow> (status_of_error e, d)
      | Inr sender_wallet \<Rightarrow>
          (case validated of
             Inl e \<Rightarrow> (status_of_error e, d)
           | Inr v \<Rightarrow>
               (case objects_get (\<lambda>r. wallet_id r = tr_recipient_wallet_id v) (wallets d) of
                  Inl DoesNotExist \<Rightarrow> (404, d)
                | Inl e \<Rightarrow> (status_of_error e, d)
                | Inr recipient_wallet' \<Rightarrow>
                    if pk sender_wallet = pk recipient_wallet' then (400, d)
                    else (case create_transfer d sender_wallet recipient_wallet' (tr_amount v)
                                 (PyDict [(''narration'',
                                           PyStr (case tr_narration v of None \<Rightarrow> [] | Some n \<Rightarrow> n)),
                                          (''initiator'', PyStr (str_nat request_user))]) of
                            Inl DoesNotExist \<Rightarrow> (404, d)
                          | Inl e \<Rightarrow> (status_of_error e, d)
                          | Inr (outgoing_txn, incoming_txn, d') \<Rightarrow> (200, d')))))"

text \<open>
  \<^verbatim>\<open>request.data.get(key)\<close>: the value, or \<^verbatim>\<open>None\<close>. \<^verbatim>\<open>wallet.balance < amount\<close> compares a
  \<^verbatim>\<open>Decimal\<close> with what the body holds: exactly with an int, a bool, a \<^verbatim>\<open>Decimal\<close> or a
  float, and with \<^verbatim>\<open>TypeError\<close> for anything else.
\<close>

definition data_get :: "(string \<times> pyobj) list \<Rightarrow> string \<Rightarrow> pyobj" where
  "data_get data key = (case map_of data key of None \<Rightarrow> PyNone | Some v \<Rightarrow> v)"

fun number :: "pyobj \<Rightarrow> rat option" where
  "number (PyFloat f) = Some f"
| "number y = exact y"

definition decimal_less :: "rat \<Rightarrow> pyobj \<Rightarrow> error + bool" where
  "decimal_less x y = (case number y of None \<Rightarrow> Inl TypeError | Some a \<Rightarrow> Inr (x < a))"

text \<open>
  \<^verbatim>\<open>AirtimeView.post\<close> and \<^verbatim>\<open>DataView.post\<close> catch nothing: every exception is a 500. The
  balance check comes first, then the provider call, then (on success only) the ledger
  entry.
\<close>

text \<open>
  After the ledger entry the handlers answer with \<^verbatim>\<open>TransactionSerializer(txn).data\<close>. The
  serializer renders the amount the instance was created with, turning anything that is
  not a \<^verbatim>\<open>Decimal\<close> into one by \<^verbatim>\<open>Decimal(str(amount))\<close>; for a bool that raises (\<^verbatim>\<open>str\<close>
  gives \<^verbatim>\<open>'True'\<close> or \<^verbatim>\<open>'False'\<close>), after the atomic block has committed, and the answer is
  500 with the entry written. (What the serializer does with an amount beyond the
  column's digits is, like the column itself, not modelled.)
\<close>

definition serialized_status :: "pyobj \<Rightarrow> nat" where
  "serialized_status amt = (case amt of PyBool b \<Rightarrow> 500 | _ \<Rightarrow> 200)"

definition AirtimeView_post ::
  "transport \<Rightarrow> settings \<Rightarrow> string \<Rightarrow> string \<Rightarrow> db \<Rightarrow> nat \<Rightarrow> (string \<times> pyobj) list \<Rightarrow> nat \<times> db" where
  "AirtimeView_post post cfg uuid_hex random_part d request_user data =
     (case objects_get (\<lambda>r. user r = request_user) (wallets d) of
        Inl e \<Rightarrow> (500, d)
      | Inr wlt \<Rightarrow>
          (let phone = data_get data ''phone'';
               amt = data_get data ''amount'';
               network = data_get data ''network''
           in case decimal_less (balance wlt) amt of
                Inl e \<Rightarrow> (500, d)
              | Inr True \<Rightarrow> (400, d)
              | Inr False \<Rightarrow>
                  (case buy_airtime post cfg phone amt network of
                     Inl e \<Rightarrow> (500, d)
                   | Inr (success, response) \<Rightarrow>
                       if success
                       then (case create_vas_transaction uuid_hex random_part d wlt amt ''AIRTIME''
                                    (PyDict [(''phone'', phone), (''network'', network),
                                             (''payscribe_response'', response)]) of
                               Inl e \<Rightarrow> (500, d)
                             | Inr (txn, w', d') \<Rightarrow> (serialized_status amt, d'))
                       else (400, d))))"

definition DataView_post ::
  "transport \<Rightarrow> settings \<Rightarrow> string \<Rightarrow> string \<Rightarrow> db \<Rightarrow> nat \<Rightarrow> (string \<times> pyobj) list \<Rightarrow> nat \<times> db" where
  "DataView_post post cfg uuid_hex random_part d request_user data =
     (case objects_get (\<lambda>r. user r = request_user) (wallets d) of
        Inl e \<Rightarrow> (500, d)
      | Inr wlt \<Rightarrow>
          (let phone = data_get data ''phone'';
               plan_code = data_get data ''plan_code'';
               network = data_get data ''network'';
               amt = data_get data ''amount''
           in case decimal_less (balance wlt) amt of
                Inl e \<Rightarrow> (500, d)
              | Inr True \<Rightarrow> (400, d)
              | Inr False \<Rightarrow>
                  (case buy_data post cfg phone plan_code network of
                     Inl e \<Rightarrow> (500, d)
                   | Inr (success, response) \<Rightarrow>
                       if success
                       then (case create_vas_transaction uuid_hex random_part d wlt amt ''DATA''
                                    (PyDict [(''phone'', phone), (''plan'', plan_code),
                                             (''network'', network),
                                             (''payscribe_response'', response)]) of
                               Inl e \<Rightarrow> (500, d)
                             | Inr (txn, w', d') \<Rightarrow> (serialized_status amt, d'))
                       else (400, d))))"

section \<open>Deleting a wallet (the on_delete rules of wallet/models.py)\<close>

text \<open>
  \<^verbatim>\<open>Transaction.wallet\<close> is declared \<^verbatim>\<open>on_delete=models.PROTECT\<close> and
  \<^verbatim>\<open>Transaction.recipient_wallet\<close> is declared \<^verbatim>\<open>on_delete=models.SET_NULL\<close>. Deleting a
  wallet therefore raises \<^verbatim>\<open>ProtectedError\<close>, changing nothing, when some transaction has
  it as its \<open>wallet\<close>; otherwise the row is removed and every transaction that named it as
  \<open>recipient_wallet\<close> gets \<^verbatim>\<open>NULL\<close> there.
\<close>

definition Wallet_delete :: "db \<Rightarrow> Wallet \<Rightarrow> error + db" where
  "Wallet_delete d w =
     (if list_ex (\<lambda>t. wallet t = pk w) (transactions d) then Inl ProtectedError
      else Inr \<lparr>wallets = filter (\<lambda>r. pk r \<noteq> pk w) (wallets d),
                transactions =
                  map (\<lambda>t. if recipient_wallet t = Some (pk w)
                            then t\<lparr>recipient_wallet := None\<rparr> else t)
                      (transactions d)\<rparr>)"

section \<open>The ledger total of a wallet\<close>

text \<open>
  The signed effect of a row on its wallet, by its type: a deposit adds its amount; a
  withdrawal, an airtime purchase and a data purchase subtract it. Nothing in
  \<^verbatim>\<open>models.py\<close> tells the debit row of a transfer from the credit row, and no operation
  of the source writes a \<^verbatim>\<open>TRANSFER\<close> or \<^verbatim>\<open>PAYMENT\<close> row, so these count nothing.
  \<open>ledger_total st d w\<close> adds the signed effects of the rows of wallet \<open>w\<close> whose status
  is \<open>st\<close>.
\<close>

definition signed_effect :: "Transaction \<Rightarrow> rat" where
  "signed_effect t =
     (if transaction_type t = ''DEPOSIT'' then amount t
      else if transaction_type t \<in> {''WITHDRAWAL'', ''AIRTIME'', ''DATA''} then - amount t
      else 0)"

definition ledger_total :: "string \<Rightarrow> db \<Rightarrow> nat \<Rightarrow> rat" where
  "ledger_total st d w =
     sum_list (map signed_effect
       (filter (\<lambda>t. wallet t = w \<and> status t = st) (transactions d)))"

section \<open>What the claims speak of\<close>

text \<open>
  A completed transfer of \<open>a\<close> between two wallets of \<open>d\<close>, as a relation between the
  tables before and after: two new \<^verbatim>\<open>TRANSFER\<close> rows with status \<^verbatim>\<open>COMPLETED\<close> and amount
  \<open>a\<close>, one on the sender and one on the recipient, the sender's balance lowered and the
  recipient's raised by \<open>a\<close>, and nothing else changed.
\<close>

definition transfer_both :: "db \<Rightarrow> db \<Rightarrow> rat \<Rightarrow> bool" where
  "transfer_both d d' a =
     (\<exists>s r debit credit.
        s \<in> set (wallets d) \<and> r \<in> set (wallets d) \<and> pk s \<noteq> pk r \<and>
        transactions d' = transactions d @ [debit, credit] \<and>
        wallet debit = pk s \<and> wallet credit = pk r \<and>
        amount debit = a \<and> amount credit = a \<and>
        transaction_type debit = ''TRANSFER'' \<and> transaction_type credit = ''TRANSFER'' \<and>
        status debit = ''COMPLETED'' \<and> status credit = ''COMPLETED'' \<and>
        wallets d' =
          map (\<lambda>w. if pk w = pk s then w\<lparr>balance := balance w - a\<rparr>
                    else if pk w = pk r then w\<lparr>balance := balance w + a\<rparr> else w)
              (wallets d))"

text \<open>
  The ledger agrees with the balances, for the rows of status \<open>st\<close>: primary keys of
  wallets are unique and every wallet's balance is its ledger total.
\<close>

definition ledger_consistent :: "string \<Rightarrow> db \<Rightarrow> bool" where
  "ledger_consistent st d =
     (distinct (map pk (wallets d))
      \<and> list_all (\<lambda>t. wallet t \<in> set (map pk (wallets d))) (transactions d)
      \<and> list_all (\<lambda>w. balance w = ledger_total st d (pk w)) (wallets d))"

text \<open>
  One request served: the tables before and after a call of one of the five handlers
  that can write, with any request, any provider behaviour and any random draw.
\<close>

inductive step :: "db \<Rightarrow> db \<Rightarrow> bool" where
  register: "new_pk \<notin> set (map pk (wallets d)) \<Longrightarrow>
             step d (snd (RegisterView_create uuid_str d new_pk new_user))"
| deposit: "step d (snd (DepositWebhookView_post H secret_key parse uuid_hex random_part d
                           raw_body signature_header))"
| withdrawal: "step d (snd (WithdrawalView_post post cfg d request_user validated))"
| transfer: "step d (snd (TransferView_post d request_user validated'))"
| airtime: "step d (snd (AirtimeView_post post cfg uuid_hex random_part d request_user data))"
| data: "step d (snd (DataView_post post cfg uuid_hex random_part d request_user data))"

section \<open>Example states\<close>

text \<open>
  Two wallets, a provider that answers every request with success, a provider that
  cannot be reached, and a configuration, for the concrete instances below.
\<close>

definition alice :: Wallet where
  "alice = \<lparr>pk = 1, user = 7, balance = 0, wallet_id = ''NEXA1A2B3C4D'',
             virtual_account_number = None, virtual_bank_name = None,
             virtual_account_reference = None, is_active = True\<rparr>"

definition bob :: Wallet where
  "bob = \<lparr>pk = 2, user = 8, balance = 0, wallet_id = ''NEXA9Z8Y7X6W'',
           virtual_account_number = None, virtual_bank_name = None,
           virtual_account_reference = None, is_active = True\<rparr>"

definition carol :: Wallet where
  "carol = \<lparr>pk = 3, user = 9, balance = 0, wallet_id = ''NEXA5E6F7A8B'',
             virtual_account_number = None, virtual_bank_name = None,
             virtual_account_reference = None, is_active = True\<rparr>"

definition provider_ok :: transport where
  "provider_ok url payload headers = Responded 200 [] (Inr (PyDict [(''status'', PyBool True)]))"


definition test_settings :: settings where
  "test_settings = \<lparr>PAYSCRIBE_BASE_URL = ''https://provider.example/api'',
                     PAYSCRIBE_API_KEY = ''key''\<rparr>"

definition transfer_row :: Transaction where
  "transfer_row = \<lparr>wallet = 1, amount = 500, transaction_type = ''TRANSFER'',
                    status = ''COMPLETED'', reference = ''TRF-0F1E2D3C'', narration = None,
                    recipient_wallet = Some 2, metadata = PyDict []\<rparr>"

definition deposit_row :: Transaction where
  "deposit_row = \<lparr>wallet = 1, amount = 5000, transaction_type = ''DEPOSIT'',
                   status = ''SUCCESS'', reference = ''DEP-ABC123'', narration = None,
                   recipient_wallet = None, metadata = PyDict []\<rparr>"

definition airtime_row :: Transaction where
  "airtime_row = \<lparr>wallet = 1, amount = 500, transaction_type = ''AIRTIME'',
                   status = ''SUCCESS'', reference = ''AIR-0F1E2D3C'', narration = None,
                   recipient_wallet = None,
                   metadata = PyDict [(''phone'', PyStr ''08012345678'')]\<rparr>"

section \<open>Properties of the webhook verifier\<close>

lemma hex_digit_ascii: "of_char (hex_digit n) < (128::nat)"
proof -
  have "hex_digit n \<in> set ''0123456789abcdef''"
    unfolding hex_digit_def by (rule nth_mem) simp
  moreover have "\<forall>c \<in> set ''0123456789abcdef''. of_char c < (128::nat)"
    by simp
  ultimately show ?thesis by blast
qed

lemma hex_byte_ascii: "is_ascii (hex_byte b)"
  by (simp add: is_ascii_def hex_byte_def hex_digit_ascii)

lemma is_ascii_append: "is_ascii (xs @ ys) = (is_ascii xs \<and> is_ascii ys)"
  by (simp add: is_ascii_def)

lemma hexdigest_ascii: "is_ascii (hexdigest bs)"
proof (induction bs)
  case Nil
  show ?case by (simp add: hexdigest_def is_ascii_def)
next
  case (Cons b bs)
  have "hexdigest (b # bs) = hex_byte b @ hexdigest bs"
    by (simp add: hexdigest_def)
  with Cons show ?case
    by (simp add: is_ascii_append hex_byte_ascii)
qed

text \<open>
  C7. For every raw payload and every received signature, the verifier returns true
  exactly when the received signature is the lowercase hexadecimal digest of the keyed
  hash of the raw payload bytes under the configured secret. The payload enters the hash
  as the bytes it arrived in: nothing decodes it first.
\<close>

theorem verify_webhook_signature_iff:
  "(verify_webhook_signature H secret_key payload received_signature = Inr True)
     = (received_signature = hexdigest (H secret_key payload))"
  using hexdigest_ascii [of "H secret_key payload"]
  by (auto simp: verify_webhook_signature_def compare_digest_def)

section \<open>Properties of the request handlers\<close>

lemma TransferView_post_unchanged:
  "snd (TransferView_post d request_user validated) = d"
  by (auto simp: TransferView_post_def create_transfer_def split: sum.splits error.splits)

lemma WithdrawalView_post_unchanged:
  "snd (WithdrawalView_post post cfg d request_user validated) = d"
  by (auto simp: WithdrawalView_post_def create_withdrawal_def Let_def split: sum.splits)

text \<open>
  C2. A transfer request either produces both rows (a completed debit on the sender and
  a completed credit on the recipient, same amount, balances moved) or leaves the
  transaction table and every balance as they were; never one row of the two. On every
  path of \<^verbatim>\<open>TransferView.post\<close> it is the second: the handler returns before the service
  call, or the service call raises, since \<^verbatim>\<open>TransactionService\<close> has no \<^verbatim>\<open>create_transfer\<close>.
\<close>

theorem TransferView_post_both_or_neither:
  "(\<exists>v. validated = Inr v \<and>
        transfer_both d (snd (TransferView_post d request_user validated)) (tr_amount v))
   \<or> snd (TransferView_post d request_user validated) = d"
  by (simp add: TransferView_post_unchanged)

lemma decimal_less_number:
  "number amt = Some a \<Longrightarrow> decimal_less x amt = Inr (x < a)"
  by (simp add: decimal_less_def)

text \<open>
  C3. When the amount asked for exceeds the balance of the requester's wallet, no
  withdrawal, transfer, airtime or data request writes anything: the transaction table
  and all balances stay as they were (so no completed or pending debit appears, and the
  balance is not driven below zero). The two purchase handlers answer 400.
\<close>

theorem no_overdraft:
  assumes "objects_get (\<lambda>r. user r = request_user) (wallets d) = Inr wlt"
    and "number amt = Some a"
    and "balance wlt < a"
    and "data_get data ''amount'' = amt"
    and "wd_amount wv = a"
    and "tr_amount tv = a"
  shows "AirtimeView_post post cfg uuid_hex random_part d request_user data = (400, d)
       \<and> DataView_post post cfg uuid_hex random_part d request_user data = (400, d)
       \<and> snd (WithdrawalView_post post cfg d request_user (Inr wv)) = d
       \<and> snd (TransferView_post d request_user (Inr tv)) = d"
proof -
  have less: "decimal_less (balance wlt) (data_get data ''amount'') = Inr True"
    using assms(2-4) by (simp add: decimal_less_number)
  have "AirtimeView_post post cfg uuid_hex random_part d request_user data = (400, d)"
    using assms(1) less by (simp add: AirtimeView_post_def Let_def)
  moreover have "DataView_post post cfg uuid_hex random_part d request_user data = (400, d)"
    using assms(1) less by (simp add: DataView_post_def Let_def)
  ultimately show ?thesis
    by (simp add: WithdrawalView_post_unchanged TransferView_post_unchanged)
qed

theorem no_overdraft_witness:
  "objects_get (\<lambda>r. user r = 7) (wallets \<lparr>wallets = [alice\<lparr>balance := 100\<rparr>], transactions = []\<rparr>)
     = Inr (alice\<lparr>balance := 100\<rparr>)
   \<and> number (PyInt 500) = Some 500
   \<and> balance (alice\<lparr>balance := 100\<rparr>) < 500
   \<and> AirtimeView_post provider_ok test_settings ''0f1e2d3c4b5a69788796a5b4c3d2e1f0'' ''Q7W8E9R0T1''
         \<lparr>wallets = [alice\<lparr>balance := 100\<rparr>], transactions = []\<rparr> 7
         [(''phone'', PyStr ''08012345678''), (''amount'', PyInt 500), (''network'', PyStr ''mtn'')]
       = (400, \<lparr>wallets = [alice\<lparr>balance := 100\<rparr>], transactions = []\<rparr>)
   \<and> DataView_post provider_ok test_settings ''0f1e2d3c4b5a69788796a5b4c3d2e1f0'' ''Q7W8E9R0T1''
         \<lparr>wallets = [alice\<lparr>balance := 100\<rparr>], transactions = []\<rparr> 7
         [(''phone'', PyStr ''08012345678''), (''amount'', PyInt 500), (''network'', PyStr ''mtn'')]
       = (400, \<lparr>wallets = [alice\<lparr>balance := 100\<rparr>], transactions = []\<rparr>)
   \<and> snd (WithdrawalView_post provider_ok test_settings
         \<lparr>wallets = [alice\<lparr>balance := 100\<rparr>], transactions = []\<rparr> 7
         (Inr \<lparr>wd_amount = 500, wd_bank_code = ''058'', wd_account_number = ''1234567890'',
               wd_account_name = ''Test User'', wd_narration = None\<rparr>))
       = \<lparr>wallets = [alice\<lparr>balance := 100\<rparr>], transactions = []\<rparr>
   \<and> snd (TransferView_post \<lparr>wallets = [alice\<lparr>balance := 100\<rparr>], transactions = []\<rparr> 7
         (Inr \<lparr>tr_amount = 500, tr_recipient_wallet_id = ''NEXA9Z8Y7X6W'', tr_narration = None\<rparr>))
       = \<lparr>wallets = [alice\<lparr>balance := 100\<rparr>], transactions = []\<rparr>"
proof -
  let ?d = "\<lparr>wallets = [alice\<lparr>balance := 100\<rparr>], transactions = []\<rparr>"
  let ?data = "[(''phone'', PyStr ''08012345678''), (''amount'', PyInt 500),
                (''network'', PyStr ''mtn'')]"
  have h1: "objects_get (\<lambda>r. user r = 7) (wallets ?d) = Inr (alice\<lparr>balance := 100\<rparr>)"
    by (simp add: objects_get_def alice_def)
  have h2: "number (PyInt 500) = Some 500" by simp
  have h3: "balance (alice\<lparr>balance := 100\<rparr>) < 500" by simp
  have h4: "data_get ?data ''amount'' = PyInt 500" by (simp add: data_get_def)
  show ?thesis
    using h1 h2 h3
      no_overdraft [OF h1 h2 h3 h4, of
        "\<lparr>wd_amount = 500, wd_bank_code = ''058'', wd_account_number = ''1234567890'',
          wd_account_name = ''Test User'', wd_narration = None\<rparr>"
        "\<lparr>tr_amount = 500, tr_recipient_wallet_id = ''NEXA9Z8Y7X6W'', tr_narration = None\<rparr>"
        provider_ok test_settings "''0f1e2d3c4b5a69788796a5b4c3d2e1f0''" "''Q7W8E9R0T1''"]
    by simp
qed

section \<open>Properties of the gateway client\<close>

text \<open>
  What the client's \<^verbatim>\<open>try\<close> block covers: with a payload that can be encoded, a request
  that ends in a \<^verbatim>\<open>RequestException\<close> is returned as \<open>(False, e)\<close>. The client raises in
  two cases only: the payload cannot be encoded, or the HTTP call raises outside
  \<^verbatim>\<open>RequestException\<close>. And an operation given a network that is not a string raises
  before it reaches the client.
\<close>

lemma make_request_failed:
  assumes "\<And>url payload headers. post url payload headers = RequestFailed e"
    and "json_encodable payload"
  shows "make_request post cfg endpoint payload = Inr (False, PyStr e)"
  by (simp add: make_request_def assms)

lemma make_request_raises:
  "(make_request post cfg endpoint payload = Inl x)
     = (if json_encodable payload
        then post (PAYSCRIBE_BASE_URL cfg @ endpoint) payload
               [(''Authorization'', ''Bearer '' @ PAYSCRIBE_API_KEY cfg),
                (''Content-Type'', ''application/json'')] = OtherFailure x
        else x = TypeError)"
  by (auto simp: make_request_def split: http_outcome.splits sum.splits)

lemma network_not_a_string:
  assumes "\<And>s. network \<noteq> PyStr s"
  shows "buy_airtime post cfg phone amt network = Inl AttributeError"
    and "buy_data post cfg phone plan_code network = Inl AttributeError"
  using assms by (cases network; simp add: buy_airtime_def buy_data_def str_upper_def)+

lemma gateway_failure_is_returned:
  assumes "\<And>url payload headers. post url payload headers = RequestFailed e"
    and "map_of bank_details ''bank_code'' = Some bank_code"
    and "map_of bank_details ''account_number'' = Some account_number"
    and "map_of bank_details ''account_name'' = Some account_name"
    and "list_all json_encodable
           [user_email, wid, amt, bank_code, account_number, account_name, ref, narr, phone,
            plan_code]"
  shows "create_virtual_account post cfg user_email wid = Inr (False, PyStr e)"
    and "process_withdrawal post cfg amt bank_details ref narr = Inr (False, PyStr e)"
    and "buy_airtime post cfg phone amt (PyStr network) = Inr (False, PyStr e)"
    and "buy_data post cfg phone plan_code (PyStr network) = Inr (False, PyStr e)"
  using assms(2-5)
  by (simp_all add: create_virtual_account_def process_withdrawal_def buy_airtime_def
      buy_data_def dict_item_def str_upper_def make_request_failed [OF assms(1)])


section \<open>Withdrawal requests\<close>

text \<open>
  C5, at a wallet holding 4500.00 and a valid request to withdraw 1000.00 while the
  provider accepts every payout: the handler answers 500 and the tables are as before.
  No \<^verbatim>\<open>PENDING\<close> withdrawal is recorded, because evaluating
  \<^verbatim>\<open>TransactionService.create_withdrawal\<close> raises \<^verbatim>\<open>AttributeError\<close>.
\<close>

theorem withdrawal_request_records_nothing:
  "WithdrawalView_post provider_ok test_settings
      \<lparr>wallets = [alice\<lparr>balance := 4500\<rparr>], transactions = []\<rparr> 7
      (Inr \<lparr>wd_amount = 1000, wd_bank_code = ''058'', wd_account_number = ''1234567890'',
            wd_account_name = ''Test User'', wd_narration = Some ''Test withdrawal''\<rparr>)
     = (500, \<lparr>wallets = [alice\<lparr>balance := 4500\<rparr>], transactions = []\<rparr>)"
  by (simp add: WithdrawalView_post_def objects_get_def alice_def create_withdrawal_def
      status_of_error_def)

section \<open>Deleting a wallet\<close>

text \<open>
  C9 as stated fails for a wallet that transactions name only as recipient: the second
  wallet below is the recipient of a transfer row of the first, and deleting it is not
  rejected; the row survives with its recipient cleared.
\<close>

theorem wallet_delete_recipient_counterexample:
  "recipient_wallet transfer_row = Some (pk bob)
   \<and> Wallet_delete \<lparr>wallets = [alice, bob], transactions = [transfer_row]\<rparr> bob
       = Inr \<lparr>wallets = [alice], transactions = [transfer_row\<lparr>recipient_wallet := None\<rparr>]\<rparr>
   \<and> transfer_row\<lparr>recipient_wallet := None\<rparr> \<noteq> transfer_row"
  by (simp add: Wallet_delete_def transfer_row_def alice_def bob_def)

text \<open>
  C9, amended. Deleting a wallet that owns at least one transaction is rejected with
  \<^verbatim>\<open>ProtectedError\<close> and changes nothing. Deleting a wallet that owns none goes through,
  also when transactions name it as their recipient: it removes exactly the rows of that
  wallet from the wallet table, keeps every transaction, in order and with every field
  but \<open>recipient_wallet\<close> as it was, clears \<open>recipient_wallet\<close> where it named the deleted
  wallet, and leaves no transaction that refers to the deleted wallet.
\<close>

theorem wallet_delete_rules:
  "(list_ex (\<lambda>t. wallet t = pk w) (transactions d) \<longrightarrow> Wallet_delete d w = Inl ProtectedError)
   \<and> (\<not> list_ex (\<lambda>t. wallet t = pk w) (transactions d) \<longrightarrow>
         (\<exists>d'. Wallet_delete d w = Inr d'
            \<and> wallets d' = filter (\<lambda>r. pk r \<noteq> pk w) (wallets d)
            \<and> map (\<lambda>t. t\<lparr>recipient_wallet := None\<rparr>) (transactions d')
                = map (\<lambda>t. t\<lparr>recipient_wallet := None\<rparr>) (transactions d)
            \<and> map recipient_wallet (transactions d')
                = map (\<lambda>t. if recipient_wallet t = Some (pk w) then None
                             else recipient_wallet t) (transactions d)
            \<and> list_all (\<lambda>t. wallet t \<noteq> pk w \<and> recipient_wallet t \<noteq> Some (pk w))
                (transactions d')))"
proof (intro conjI impI)
  assume "list_ex (\<lambda>t. wallet t = pk w) (transactions d)"
  then show "Wallet_delete d w = Inl ProtectedError"
    by (simp add: Wallet_delete_def)
next
  let ?d' = "\<lparr>wallets = filter (\<lambda>r. pk r \<noteq> pk w) (wallets d),
      transactions = map (\<lambda>t. if recipient_wallet t = Some (pk w)
                                then t\<lparr>recipient_wallet := None\<rparr> else t) (transactions d)\<rparr>"
  assume free: "\<not> list_ex (\<lambda>t. wallet t = pk w) (transactions d)"
  then have "Wallet_delete d w = Inr ?d'"
    by (simp add: Wallet_delete_def)
  moreover have "wallets ?d' = filter (\<lambda>r. pk r \<noteq> pk w) (wallets d)"
    by simp
  moreover have "map (\<lambda>t. t\<lparr>recipient_wallet := None\<rparr>) (transactions ?d')
      = map (\<lambda>t. t\<lparr>recipient_wallet := None\<rparr>) (transactions d)"
    by (simp add: comp_def)
  moreover have "map recipient_wallet (transactions ?d')
      = map (\<lambda>t. if recipient_wallet t = Some (pk w) then None else recipient_wallet t)
          (transactions d)"
    by (simp add: comp_def)
  moreover have "list_all (\<lambda>t. wallet t \<noteq> pk w \<and> recipient_wallet t \<noteq> Some (pk w))
      (transactions ?d')"
    using free by (auto simp: list_all_iff list_ex_iff)
  ultimately show "\<exists>d'. Wallet_delete d w = Inr d'
      \<and> wallets d' = filter (\<lambda>r. pk r \<noteq> pk w) (wallets d)
      \<and> map (\<lambda>t. t\<lparr>recipient_wallet := None\<rparr>) (transactions d')
          = map (\<lambda>t. t\<lparr>recipient_wallet := None\<rparr>) (transactions d)
      \<and> map recipient_wallet (transactions d')
          = map (\<lambda>t. if recipient_wallet t = Some (pk w) then None
                       else recipient_wallet t) (transactions d)
      \<and> list_all (\<lambda>t. wallet t \<noteq> pk w \<and> recipient_wallet t \<noteq> Some (pk w))
          (transactions d')"
    by blast
qed

theorem wallet_delete_rules_witness:
  "list_ex (\<lambda>t. wallet t = pk alice) [transfer_row]
   \<and> Wallet_delete \<lparr>wallets = [alice, bob], transactions = [transfer_row]\<rparr> alice
       = Inl ProtectedError
   \<and> \<not> list_ex (\<lambda>t. wallet t = pk bob) [transfer_row]
   \<and> list_ex (\<lambda>t. recipient_wallet t = Some (pk bob)) [transfer_row]
   \<and> (\<exists>d'. Wallet_delete \<lparr>wallets = [alice, bob], transactions = [transfer_row]\<rparr> bob = Inr d'
          \<and> wallets d' = [alice]
          \<and> map recipient_wallet (transactions d') = [None]
          \<and> list_all (\<lambda>t. wallet t \<noteq> pk bob \<and> recipient_wallet t \<noteq> Some (pk bob))
              (transactions d'))"
proof -
  let ?d = "\<lparr>wallets = [alice, bob], transactions = [transfer_row]\<rparr>"
  have owned: "list_ex (\<lambda>t. wallet t = pk alice) (transactions ?d)"
    by (simp add: transfer_row_def alice_def)
  have free: "\<not> list_ex (\<lambda>t. wallet t = pk bob) (transactions ?d)"
    by (simp add: transfer_row_def bob_def)
  have named: "list_ex (\<lambda>t. recipient_wallet t = Some (pk bob)) [transfer_row]"
    by (simp add: transfer_row_def bob_def)
  from wallet_delete_rules [of alice ?d] owned
  have rejected: "Wallet_delete ?d alice = Inl ProtectedError" by blast
  from wallet_delete_rules [of bob ?d] free
  obtain d' where d': "Wallet_delete ?d bob = Inr d'"
    "wallets d' = filter (\<lambda>r. pk r \<noteq> pk bob) (wallets ?d)"
    "map recipient_wallet (transactions d')
      = map (\<lambda>t. if recipient_wallet t = Some (pk bob) then None else recipient_wallet t)
          (transactions ?d)"
    "list_all (\<lambda>t. wallet t \<noteq> pk bob \<and> recipient_wallet t \<noteq> Some (pk bob)) (transactions d')"
    by blast
  from d'(2) have w: "wallets d' = [alice]"
    by (simp add: alice_def bob_def)
  from d'(3) have r: "map recipient_wallet (transactions d') = [None]"
    by (simp add: transfer_row_def bob_def)
  have "\<exists>d'. Wallet_delete ?d bob = Inr d' \<and> wallets d' = [alice]
      \<and> map recipient_wallet (transactions d') = [None]
      \<and> list_all (\<lambda>t. wallet t \<noteq> pk bob \<and> recipient_wallet t \<noteq> Some (pk bob)) (transactions d')"
    by (rule exI [of _ d']) (intro conjI d'(1) w r d'(4))
  with owned free named rejected show ?thesis by simp
qed

section \<open>What a ledger write changes\<close>

lemma write_row_others:
  "filter (\<lambda>r. pk r \<noteq> pk w) (write_row w rows) = filter (\<lambda>r. pk r \<noteq> pk w) rows"
proof -
  have "filter (\<lambda>r. pk r \<noteq> pk w) (map (\<lambda>r. if pk r = pk w then w else r) rows)
      = filter (\<lambda>r. pk r \<noteq> pk w) rows"
    by (induction rows) simp_all
  then show ?thesis
    by (simp add: write_row_def)
qed

lemma write_row_member: "w \<in> set (write_row w rows)"
  by (auto simp: write_row_def list_ex_iff)

lemma Wallet_save_result:
  assumes "Wallet_save random_part d w = Inr (w', d')"
  shows "w' = (if wallet_id w = [] then w\<lparr>wallet_id := generate_wallet_id random_part\<rparr> else w)"
    and "wallets d' = write_row w' (wallets d)"
    and "transactions d' = transactions d"
  using assms by (auto simp: Wallet_save_def Let_def split: if_splits)

lemma create_deposit_result:
  assumes "create_deposit uuid_hex random_part d wlt amt ref meta = Inr (txn, w', d')"
  shows "Wallet_save random_part (d\<lparr>transactions := transactions d @ [txn]\<rparr>)
           (wlt\<lparr>balance := balance wlt + amt\<rparr>) = Inr (w', d')"
    and "wallet txn = pk wlt" and "amount txn = amt"
    and "transaction_type txn = ''DEPOSIT''" and "status txn = ''SUCCESS''"
  using assms
  by (auto simp: create_deposit_def Transaction_create_def Let_def
      split: sum.splits if_splits option.splits)

lemma create_vas_transaction_result:
  assumes "create_vas_transaction uuid_hex random_part d wlt amt service_type meta
             = Inr (txn, w', d')"
  shows "\<exists>a. exact amt = Some a \<and> amount txn = a
           \<and> Wallet_save random_part (d\<lparr>transactions := transactions d @ [txn]\<rparr>)
                (wlt\<lparr>balance := balance wlt - a\<rparr>) = Inr (w', d')"
    and "wallet txn = pk wlt"
    and "transaction_type txn = service_type" and "status txn = ''SUCCESS''"
  using assms
  by (auto simp: create_vas_transaction_def Transaction_create_def Let_def
      split: sum.splits if_splits option.splits)

section \<open>The deposit webhook\<close>

lemma verify_webhook_signature_result:
  "verify_webhook_signature H secret_key payload s
     = (if is_ascii s then Inr (s = hexdigest (H secret_key payload)) else Inl TypeError)"
  using hexdigest_ascii [of "H secret_key payload"]
  by (auto simp: verify_webhook_signature_def compare_digest_def)

text \<open>
  A request whose signature does not verify writes nothing, on either path; when the
  verifier returns false the handler answers 403, and when the verifier raises (a
  signature with a character outside ASCII), the handler's last \<^verbatim>\<open>except\<close> answers 400,
  whatever the keyed hash is.
\<close>

lemma unverified_webhook_writes_nothing:
  assumes "verify_webhook_signature H secret_key raw_body
             (case signature_header of None \<Rightarrow> [] | Some s \<Rightarrow> s) \<noteq> Inr True"
  shows "snd (DepositWebhookView_post H secret_key parse uuid_hex random_part d raw_body
                signature_header) = d"
  using assms
  by (auto simp: DepositWebhookView_post_def verify_webhook_signature_result Let_def
      split: option.splits)

lemma rejected_signature_answers_403:
  assumes "verify_webhook_signature H secret_key raw_body
             (case signature_header of None \<Rightarrow> [] | Some s \<Rightarrow> s) = Inr False"
  shows "DepositWebhookView_post H secret_key parse uuid_hex random_part d raw_body
           signature_header = (403, d)"
  using assms by (simp add: DepositWebhookView_post_def Let_def)

lemma webhook_non_ascii_signature:
  "\<not> is_ascii s \<Longrightarrow>
   DepositWebhookView_post H secret_key parse uuid_hex random_part d raw_body (Some s) = (400, d)"
  by (simp add: DepositWebhookView_post_def verify_webhook_signature_result)

text \<open>
  C6, at a request whose signature header is the single character \<open>0xE9\<close> (header values
  arrive decoded as Latin-1, so such a string can arrive): the signature does not verify,
  nothing is written, and the handler answers 400, which is not a forbidden-class status.
  The same request with the ASCII signature \<^verbatim>\<open>deadbeef\<close>, as wrong as the other, is answered
  403. (The instance takes for the keyed hash the function that returns the message;
  \<open>webhook_non_ascii_signature\<close> gives the 400 for every one.)
\<close>

theorem non_ascii_signature_answers_400:
  "verify_webhook_signature (\<lambda>key msg. msg) [0x73, 0x6B] [0xAB, 0x0C] [CHR 0xE9] \<noteq> Inr True
   \<and> DepositWebhookView_post (\<lambda>key msg. msg) [0x73, 0x6B] (\<lambda>body. Inl ValueError)
        ''0f1e2d3c4b5a69788796a5b4c3d2e1f0'' ''Q7W8E9R0T1''
        \<lparr>wallets = [alice], transactions = []\<rparr> [0xAB, 0x0C] (Some [CHR 0xE9])
       = (400, \<lparr>wallets = [alice], transactions = []\<rparr>)
   \<and> DepositWebhookView_post (\<lambda>key msg. msg) [0x73, 0x6B] (\<lambda>body. Inl ValueError)
        ''0f1e2d3c4b5a69788796a5b4c3d2e1f0'' ''Q7W8E9R0T1''
        \<lparr>wallets = [alice], transactions = []\<rparr> [0xAB, 0x0C] (Some ''deadbeef'')
       = (403, \<lparr>wallets = [alice], transactions = []\<rparr>)"
  by (simp add: DepositWebhookView_post_def verify_webhook_signature_result is_ascii_def
      hexdigest_def hex_byte_def hex_digit_def)

section \<open>What every run of the handlers keeps\<close>

lemma ledger_consistent_empty: "ledger_consistent st \<lparr>wallets = [], transactions = []\<rparr>"
  by (simp add: ledger_consistent_def)

lemma objects_get_member: "objects_get P rows = Inr r \<Longrightarrow> r \<in> set rows \<and> P r"
proof -
  assume "objects_get P rows = Inr r"
  then have "filter P rows = [r]"
    by (auto simp: objects_get_def split: list.splits)
  then have "r \<in> set (filter P rows)" by simp
  then show ?thesis by simp
qed

lemma ledger_total_append:
  "ledger_total st (d\<lparr>transactions := transactions d @ [t]\<rparr>) w
     = ledger_total st d w + (if wallet t = w \<and> status t = st then signed_effect t else 0)"
  by (simp add: ledger_total_def)

lemma save_keeps_ledger:
  assumes cons: "ledger_consistent st d"
    and mem: "wlt \<in> set (wallets d)"
    and saved: "Wallet_save random_part (d\<lparr>transactions := transactions d @ [t]\<rparr>)
                  (wlt\<lparr>balance := balance wlt + x\<rparr>) = Inr (w', d')"
    and t: "wallet t = pk wlt" "status t = st" "signed_effect t = x"
  shows "ledger_consistent st d'"
proof -
  let ?d1 = "d\<lparr>transactions := transactions d @ [t]\<rparr>"
  from Wallet_save_result [OF saved]
  have pk': "pk w' = pk wlt" and bal': "balance w' = balance wlt + x"
    and rows: "wallets d' = write_row w' (wallets d)"
    and txns: "transactions d' = transactions d @ [t]"
    by (simp_all split: if_splits)
  have total: "ledger_total st d' w = ledger_total st ?d1 w" for w
    by (simp add: ledger_total_def txns)
  from mem pk' have rows': "wallets d' = map (\<lambda>r. if pk r = pk wlt then w' else r) (wallets d)"
    by (auto simp: rows write_row_def list_ex_iff)
  from cons have dist: "distinct (map pk (wallets d))"
    and refs: "\<And>u. u \<in> set (transactions d) \<Longrightarrow> wallet u \<in> set (map pk (wallets d))"
    and bal: "\<And>r. r \<in> set (wallets d) \<Longrightarrow> balance r = ledger_total st d (pk r)"
    by (simp_all add: ledger_consistent_def list_all_iff)
  have pks: "map pk (wallets d') = map pk (wallets d)"
    by (simp add: rows' pk' comp_def cong: map_cong)
  with dist have "distinct (map pk (wallets d'))" by simp
  moreover have "wallet u \<in> set (map pk (wallets d'))" if "u \<in> set (transactions d')" for u
  proof (cases "u = t")
    case True
    with mem t(1) show ?thesis by (simp add: pks)
  next
    case False
    with that refs [of u] show ?thesis by (simp add: txns pks)
  qed
  moreover have "balance r' = ledger_total st d' (pk r')" if "r' \<in> set (wallets d')" for r'
  proof -
    from that obtain r where r: "r \<in> set (wallets d)"
      and r': "r' = (if pk r = pk wlt then w' else r)"
      by (auto simp: rows')
    show ?thesis
    proof (cases "pk r = pk wlt")
      case True
      with r' have "balance r' = balance wlt + x" "pk r' = pk wlt"
        by (simp_all add: bal' pk')
      with bal [OF mem] t show ?thesis
        by (simp add: total ledger_total_append)
    next
      case False
      with r' have "r' = r" by simp
      with bal [OF r] False t show ?thesis
        by (simp add: total ledger_total_append)
    qed
  qed
  ultimately show ?thesis
    unfolding ledger_consistent_def list_all_iff by blast
qed

lemma register_keeps_ledger:
  assumes cons: "ledger_consistent st d"
    and fresh: "new_pk \<notin> set (map pk (wallets d))"
  shows "ledger_consistent st (snd (RegisterView_create uuid_str d new_pk new_user))"
proof (cases "RegisterView_create uuid_str d new_pk new_user = (500, d)")
  case True
  with cons show ?thesis by simp
next
  case False
  then obtain w d' where saved: "Wallet_save [] d
      \<lparr>pk = new_pk, user = new_user, balance = 0,
       wallet_id = ''NEXA'' @ upper (take 8 uuid_str),
       virtual_account_number = None, virtual_bank_name = None,
       virtual_account_reference = None, is_active = True\<rparr> = Inr (w, d')"
    and res: "snd (RegisterView_create uuid_str d new_pk new_user) = d'"
    by (auto simp: RegisterView_create_def split: sum.splits)
  from Wallet_save_result [OF saved]
  have w: "pk w = new_pk" "balance w = 0"
    and rows: "wallets d' = write_row w (wallets d)"
    and txns: "transactions d' = transactions d"
    by simp_all
  have "pk r \<noteq> pk w" if "r \<in> set (wallets d)" for r
  proof
    assume "pk r = pk w"
    with that w(1) have "new_pk \<in> pk ` set (wallets d)"
      by (metis imageI)
    with fresh show False by simp
  qed
  then have "\<not> list_ex (\<lambda>r. pk r = pk w) (wallets d)"
    by (simp add: list_ex_iff)
  then have rows': "wallets d' = wallets d @ [w]"
    by (simp add: rows write_row_def)
  from cons have dist: "distinct (map pk (wallets d))"
    and refs: "\<And>u. u \<in> set (transactions d) \<Longrightarrow> wallet u \<in> set (map pk (wallets d))"
    and bal: "\<And>r. r \<in> set (wallets d) \<Longrightarrow> balance r = ledger_total st d (pk r)"
    by (simp_all add: ledger_consistent_def list_all_iff)
  have total: "ledger_total st d' p = ledger_total st d p" for p
    by (simp add: ledger_total_def txns)
  have "filter (\<lambda>u. wallet u = new_pk \<and> status u = st) (transactions d) = []"
    using refs fresh by (auto simp: filter_empty_conv)
  then have zero: "ledger_total st d new_pk = 0"
    by (simp add: ledger_total_def)
  have "distinct (map pk (wallets d'))"
    using dist fresh w(1) by (simp add: rows')
  moreover have "wallet u \<in> set (map pk (wallets d'))" if "u \<in> set (transactions d')" for u
    using that refs [of u] by (simp add: txns rows')
  moreover have "balance r = ledger_total st d' (pk r)" if "r \<in> set (wallets d')" for r
    using that bal [of r] w zero by (auto simp: rows' total)
  ultimately have "ledger_consistent st d'"
    unfolding ledger_consistent_def list_all_iff by blast
  with res show ?thesis by simp
qed

lemma create_deposit_keeps_ledger:
  assumes "ledger_consistent ''SUCCESS'' d" and "wlt \<in> set (wallets d)"
    and dep: "create_deposit uuid_hex random_part d wlt amt ref meta = Inr (txn, w', d')"
  shows "ledger_consistent ''SUCCESS'' d'"
proof -
  from create_deposit_result [OF dep]
  have "signed_effect txn = amt" by (simp add: signed_effect_def)
  with assms(1,2) create_deposit_result [OF dep] show ?thesis
    by (blast intro: save_keeps_ledger)
qed

lemma create_vas_transaction_keeps_ledger:
  assumes "ledger_consistent ''SUCCESS'' d" and "wlt \<in> set (wallets d)"
    and "service_type = ''AIRTIME'' \<or> service_type = ''DATA''"
    and vas: "create_vas_transaction uuid_hex random_part d wlt amt service_type meta
                = Inr (txn, w', d')"
  shows "ledger_consistent ''SUCCESS'' d'"
proof -
  from create_vas_transaction_result [OF vas]
  obtain a where a: "amount txn = a"
    and saved: "Wallet_save random_part (d\<lparr>transactions := transactions d @ [txn]\<rparr>)
        (wlt\<lparr>balance := balance wlt + (- a)\<rparr>) = Inr (w', d')"
    and t: "wallet txn = pk wlt" "transaction_type txn = service_type" "status txn = ''SUCCESS''"
    by auto
  from assms(3) t(2) a have "signed_effect txn = - a"
    by (auto simp: signed_effect_def)
  with assms(1,2) saved t show ?thesis
    by (blast intro: save_keeps_ledger)
qed

lemma step_keeps_ledger:
  assumes "step d d'" and "ledger_consistent ''SUCCESS'' d"
  shows "ledger_consistent ''SUCCESS'' d'"
  using assms
proof (induction rule: step.induct)
  case (register new_pk d uuid_str new_user)
  then show ?case by (simp add: register_keeps_ledger)
next
  case (deposit d H secret_key parse uuid_hex random_part raw_body signature_header)
  then show ?case
    by (auto simp: DepositWebhookView_post_def Let_def
        split: sum.splits error.splits bool.splits prod.splits
        dest!: objects_get_member intro: create_deposit_keeps_ledger)
next
  case (withdrawal d post cfg request_user validated)
  then show ?case by (simp add: WithdrawalView_post_unchanged)
next
  case (transfer d request_user validated')
  then show ?case by (simp add: TransferView_post_unchanged)
next
  case (airtime d post cfg uuid_hex random_part request_user data)
  then show ?case
    by (auto simp: AirtimeView_post_def Let_def
        split: sum.splits bool.splits prod.splits if_splits
        dest!: objects_get_member intro: create_vas_transaction_keeps_ledger)
next
  case (data d post cfg uuid_hex random_part request_user data)
  then show ?case
    by (auto simp: DataView_post_def Let_def
        split: sum.splits bool.splits prod.splits if_splits
        dest!: objects_get_member intro: create_vas_transaction_keeps_ledger)
qed

text \<open>
  Whatever requests are served, in whatever order: if every balance was the total of the
  wallet's \<^verbatim>\<open>SUCCESS\<close> rows before, it is so after. (The handlers write no row of
  another status, so the same cannot be said of \<^verbatim>\<open>COMPLETED\<close>: the first deposit into
  a new wallet already separates the balance from the total of its \<^verbatim>\<open>COMPLETED\<close> rows.)
\<close>

lemma run_keeps_ledger:
  assumes "step\<^sup>*\<^sup>* d d'" and "ledger_consistent ''SUCCESS'' d"
  shows "ledger_consistent ''SUCCESS'' d'"
  using assms by (induction rule: rtranclp_induct) (auto intro: step_keeps_ledger)

text \<open>
  A wallet that \<^verbatim>\<open>save\<close> has written has a \<open>wallet_id\<close>, and serving requests keeps it so
  for every row: starting from empty tables, no stored wallet has an empty \<open>wallet_id\<close>.
\<close>

lemma Wallet_save_names_wallet:
  assumes "Wallet_save random_part d w = Inr (w', d')"
  shows "wallet_id w' \<noteq> []"
  using Wallet_save_result(1) [OF assms]
  by (simp add: generate_wallet_id_def split: if_splits)

lemma Wallet_save_keeps_names:
  assumes "Wallet_save random_part d w = Inr (w', d')"
    and "list_all (\<lambda>r. wallet_id r \<noteq> []) (wallets d)"
  shows "list_all (\<lambda>r. wallet_id r \<noteq> []) (wallets d')"
  using Wallet_save_result(2) [OF assms(1)] Wallet_save_names_wallet [OF assms(1)] assms(2)
  by (auto simp: write_row_def list_all_iff)

lemma step_keeps_names:
  assumes "step d d'" and "list_all (\<lambda>r. wallet_id r \<noteq> []) (wallets d)"
  shows "list_all (\<lambda>r. wallet_id r \<noteq> []) (wallets d')"
  using assms
proof (induction rule: step.induct)
  case (register new_pk d uuid_str new_user)
  then show ?case
    by (auto simp: RegisterView_create_def split: sum.splits dest: Wallet_save_keeps_names)
next
  case (deposit d H secret_key parse uuid_hex random_part raw_body signature_header)
  have "list_all (\<lambda>r. wallet_id r \<noteq> []) (wallets d2)"
    if "create_deposit uuid_hex random_part d wlt amt ref meta = Inr (txn, w', d2)"
    for wlt amt ref meta txn w' d2
    using Wallet_save_keeps_names [OF create_deposit_result(1) [OF that]] deposit by simp
  with deposit show ?case
    by (auto simp: DepositWebhookView_post_def Let_def
        split: sum.splits error.splits bool.splits prod.splits)
next
  case (withdrawal d post cfg request_user validated)
  then show ?case by (simp add: WithdrawalView_post_unchanged)
next
  case (transfer d request_user validated')
  then show ?case by (simp add: TransferView_post_unchanged)
next
  case (airtime d post cfg uuid_hex random_part request_user data)
  have "list_all (\<lambda>r. wallet_id r \<noteq> []) (wallets d2)"
    if "create_vas_transaction uuid_hex random_part d wlt amt st meta = Inr (txn, w', d2)"
    for wlt amt st meta txn w' d2
    using create_vas_transaction_result(1) [OF that] airtime
    by (auto dest!: Wallet_save_keeps_names)
  with airtime show ?case
    by (auto simp: AirtimeView_post_def Let_def
        split: sum.splits bool.splits prod.splits if_splits)
next
  case (data d post cfg uuid_hex random_part request_user data)
  have "list_all (\<lambda>r. wallet_id r \<noteq> []) (wallets d2)"
    if "create_vas_transaction uuid_hex random_part d wlt amt st meta = Inr (txn, w', d2)"
    for wlt amt st meta txn w' d2
    using create_vas_transaction_result(1) [OF that] data
    by (auto dest!: Wallet_save_keeps_names)
  with data show ?case
    by (auto simp: DataView_post_def Let_def
        split: sum.splits bool.splits prod.splits if_splits)
qed

lemma run_from_empty:
  assumes "step\<^sup>*\<^sup>* \<lparr>wallets = [], transactions = []\<rparr> d"
  shows "ledger_consistent ''SUCCESS'' d" and "list_all (\<lambda>r. wallet_id r \<noteq> []) (wallets d)"
proof -
  show "ledger_consistent ''SUCCESS'' d"
    using run_keeps_ledger [OF assms ledger_consistent_empty] .
  show "list_all (\<lambda>r. wallet_id r \<noteq> []) (wallets d)"
    using assms by (induction rule: rtranclp_induct) (auto intro: step_keeps_names)
qed

section \<open>What a ledger write changes in the wallet table\<close>

lemma write_row_stored:
  assumes "distinct (map pk rows)" and "w \<in> set rows" and "pk w' = pk w"
  shows "write_row w' rows = map (\<lambda>r. if r = w then w' else r) rows"
proof -
  have same: "(pk r = pk w) = (r = w)" if "r \<in> set rows" for r
    using assms(1,2) that by (auto simp: distinct_map inj_on_def)
  from assms(2,3) have "list_ex (\<lambda>r. pk r = pk w') rows"
    by (auto simp: list_ex_iff)
  then have "write_row w' rows = map (\<lambda>r. if pk r = pk w then w' else r) rows"
    by (simp add: write_row_def assms(3))
  also have "\<dots> = map (\<lambda>r. if r = w then w' else r) rows"
    by (rule map_cong) (simp_all add: same)
  finally show ?thesis .
qed

text \<open>
  C10. In every state the handlers can reach from empty tables, for every stored wallet
  (the instance its handler loaded from the table), every amount, reference and
  metadata: a deposit and a purchase entry that go through return the wallet with the
  new balance and every other field as it was (\<open>wallet_id\<close>, \<open>is_active\<close>, the
  virtual-account fields, the owning user), and the wallet table afterwards is the table
  before with that one row replaced by it: no other wallet's row is touched. (In a
  reachable state no stored wallet has an empty \<open>wallet_id\<close>, so \<^verbatim>\<open>Wallet.save\<close> never
  makes a new one here.)
\<close>

theorem ledger_write_frame:
  assumes "step\<^sup>*\<^sup>* \<lparr>wallets = [], transactions = []\<rparr> d"
    and "wlt \<in> set (wallets d)"
  shows "(create_deposit uuid_hex random_part d wlt amt ref meta = Inr (txn, w', d') \<longrightarrow>
            w' = wlt\<lparr>balance := balance wlt + amt\<rparr>
            \<and> wallets d' = map (\<lambda>r. if r = wlt then wlt\<lparr>balance := balance wlt + amt\<rparr> else r)
                             (wallets d))
       \<and> (create_vas_transaction uuid_hex random_part d wlt pamt service_type meta
              = Inr (txn, w', d') \<longrightarrow>
            (\<exists>a. exact pamt = Some a
               \<and> w' = wlt\<lparr>balance := balance wlt - a\<rparr>
               \<and> wallets d' = map (\<lambda>r. if r = wlt then wlt\<lparr>balance := balance wlt - a\<rparr> else r)
                                (wallets d)))"
proof -
  from run_from_empty [OF assms(1)]
  have dist: "distinct (map pk (wallets d))"
    and names: "list_all (\<lambda>r. wallet_id r \<noteq> []) (wallets d)"
    by (simp_all add: ledger_consistent_def)
  from names assms(2) have named: "wallet_id wlt \<noteq> []"
    by (simp add: list_all_iff)
  have frame: "w' = wlt\<lparr>balance := b\<rparr>
      \<and> wallets d' = map (\<lambda>r. if r = wlt then wlt\<lparr>balance := b\<rparr> else r) (wallets d)"
    if saved: "Wallet_save random_part (d\<lparr>transactions := ts\<rparr>) (wlt\<lparr>balance := b\<rparr>)
        = Inr (w', d')"
    for b ts
  proof -
    from Wallet_save_result [OF saved] named
    have w': "w' = wlt\<lparr>balance := b\<rparr>" and rows: "wallets d' = write_row w' (wallets d)"
      by simp_all
    from w' have "pk w' = pk wlt" by simp
    from write_row_stored [OF dist assms(2) this] show ?thesis
      by (simp add: rows w')
  qed
  show ?thesis
  proof (intro conjI impI)
    assume dep: "create_deposit uuid_hex random_part d wlt amt ref meta = Inr (txn, w', d')"
    from frame [OF create_deposit_result(1) [OF dep]]
    show "w' = wlt\<lparr>balance := balance wlt + amt\<rparr>"
      and "wallets d' = map (\<lambda>r. if r = wlt then wlt\<lparr>balance := balance wlt + amt\<rparr> else r)
            (wallets d)"
      by blast+
  next
    assume vas: "create_vas_transaction uuid_hex random_part d wlt pamt service_type meta
        = Inr (txn, w', d')"
    from create_vas_transaction_result(1) [OF vas]
    obtain a where a: "exact pamt = Some a"
      and saved: "Wallet_save random_part (d\<lparr>transactions := transactions d @ [txn]\<rparr>)
          (wlt\<lparr>balance := balance wlt - a\<rparr>) = Inr (w', d')"
      by blast
    from a frame [OF saved]
    show "\<exists>a. exact pamt = Some a \<and> w' = wlt\<lparr>balance := balance wlt - a\<rparr>
        \<and> wallets d' = map (\<lambda>r. if r = wlt then wlt\<lparr>balance := balance wlt - a\<rparr> else r)
            (wallets d)"
      by blast
  qed
qed

lemma two_wallets_registered:
  "step\<^sup>*\<^sup>* \<lparr>wallets = [], transactions = []\<rparr> \<lparr>wallets = [alice, carol], transactions = []\<rparr>"
proof -
  let ?d0 = "\<lparr>wallets = [], transactions = []\<rparr> :: db"
  let ?d1 = "\<lparr>wallets = [alice], transactions = []\<rparr>"
  let ?d2 = "\<lparr>wallets = [alice, carol], transactions = []\<rparr>"
  have "snd (RegisterView_create ''1a2b3c4d-5e6f-4a7b-8c9d-0e1f2a3b4c5d'' ?d0 1 7) = ?d1"
    by (simp add: RegisterView_create_def Wallet_save_def write_row_def upper_def
        upper_char_def alice_def Let_def)
  moreover have "step ?d0 (snd (RegisterView_create ''1a2b3c4d-5e6f-4a7b-8c9d-0e1f2a3b4c5d'' ?d0 1 7))"
    by (rule step.register) simp
  ultimately have s1: "step ?d0 ?d1" by simp
  have "snd (RegisterView_create ''5e6f7a8b-1a2b-4c3d-9e8f-7a6b5c4d3e2f'' ?d1 3 9) = ?d2"
    by (simp add: RegisterView_create_def Wallet_save_def write_row_def upper_def
        upper_char_def alice_def carol_def Let_def)
  moreover have "step ?d1 (snd (RegisterView_create ''5e6f7a8b-1a2b-4c3d-9e8f-7a6b5c4d3e2f'' ?d1 3 9))"
    by (rule step.register) (simp add: alice_def)
  ultimately have s2: "step ?d1 ?d2" by simp
  from s1 s2 show ?thesis by (meson rtranclp.rtrancl_into_rtrancl rtranclp.rtrancl_refl)
qed

theorem ledger_write_frame_witness:
  "step\<^sup>*\<^sup>* \<lparr>wallets = [], transactions = []\<rparr> \<lparr>wallets = [alice, carol], transactions = []\<rparr>
   \<and> alice \<in> set [alice, carol]
   \<and> create_deposit ''0f1e2d3c4b5a69788796a5b4c3d2e1f0'' ''Q7W8E9R0T1''
        \<lparr>wallets = [alice, carol], transactions = []\<rparr> alice 5000 (Some ''DEP-ABC123'') PyNone
       = Inr (deposit_row, alice\<lparr>balance := 5000\<rparr>,
              \<lparr>wallets = [alice\<lparr>balance := 5000\<rparr>, carol], transactions = [deposit_row]\<rparr>)
   \<and> [alice\<lparr>balance := 5000\<rparr>, carol]
       = map (\<lambda>r. if r = alice then alice\<lparr>balance := balance alice + 5000\<rparr> else r)
           [alice, carol]
   \<and> create_vas_transaction ''0f1e2d3c4b5a69788796a5b4c3d2e1f0'' ''Q7W8E9R0T1''
        \<lparr>wallets = [alice, carol], transactions = []\<rparr> alice (PyInt 500) ''AIRTIME''
        (PyDict [(''phone'', PyStr ''08012345678'')])
       = Inr (airtime_row, alice\<lparr>balance := - 500\<rparr>,
              \<lparr>wallets = [alice\<lparr>balance := - 500\<rparr>, carol], transactions = [airtime_row]\<rparr>)
   \<and> (\<exists>a. exact (PyInt 500) = Some a
          \<and> [alice\<lparr>balance := - 500\<rparr>, carol]
              = map (\<lambda>r. if r = alice then alice\<lparr>balance := balance alice - a\<rparr> else r)
                  [alice, carol])"
proof -
  let ?d = "\<lparr>wallets = [alice, carol], transactions = []\<rparr>"
  have stored: "alice \<in> set (wallets ?d)"
    by simp
  have dep: "create_deposit ''0f1e2d3c4b5a69788796a5b4c3d2e1f0'' ''Q7W8E9R0T1'' ?d alice 5000
      (Some ''DEP-ABC123'') PyNone
      = Inr (deposit_row, alice\<lparr>balance := 5000\<rparr>,
             \<lparr>wallets = [alice\<lparr>balance := 5000\<rparr>, carol], transactions = [deposit_row]\<rparr>)"
    by (simp add: create_deposit_def Transaction_create_def Wallet_save_def write_row_def
        alice_def carol_def deposit_row_def Let_def)
  have vas: "create_vas_transaction ''0f1e2d3c4b5a69788796a5b4c3d2e1f0'' ''Q7W8E9R0T1'' ?d alice
      (PyInt 500) ''AIRTIME'' (PyDict [(''phone'', PyStr ''08012345678'')])
      = Inr (airtime_row, alice\<lparr>balance := - 500\<rparr>,
             \<lparr>wallets = [alice\<lparr>balance := - 500\<rparr>, carol], transactions = [airtime_row]\<rparr>)"
    by (simp add: create_vas_transaction_def Transaction_create_def Wallet_save_def write_row_def
        generate_reference_def upper_def upper_char_def alice_def carol_def airtime_row_def
        Let_def)
  from ledger_write_frame [OF two_wallets_registered stored, THEN conjunct1, rule_format, OF dep]
  have f1: "[alice\<lparr>balance := 5000\<rparr>, carol]
      = map (\<lambda>r. if r = alice then alice\<lparr>balance := balance alice + 5000\<rparr> else r)
          [alice, carol]"
    by simp
  from ledger_write_frame [OF two_wallets_registered stored, THEN conjunct2, rule_format, OF vas]
  have f2: "\<exists>a. exact (PyInt 500) = Some a
      \<and> [alice\<lparr>balance := - 500\<rparr>, carol]
          = map (\<lambda>r. if r = alice then alice\<lparr>balance := balance alice - a\<rparr> else r)
              [alice, carol]"
    by simp
  show ?thesis
    by (intro conjI two_wallets_registered dep vas f1 f2) simp
qed

section \<open>Deposits\<close>

lemma deposit_example:
  "create_deposit ''0f1e2d3c4b5a69788796a5b4c3d2e1f0'' ''Q7W8E9R0T1''
      \<lparr>wallets = [alice], transactions = []\<rparr> alice 5000 (Some ''DEP-ABC123'') PyNone
     = Inr (deposit_row, alice\<lparr>balance := 5000\<rparr>,
            \<lparr>wallets = [alice\<lparr>balance := 5000\<rparr>], transactions = [deposit_row]\<rparr>)"
  by (simp add: create_deposit_def Transaction_create_def Wallet_save_def write_row_def
      alice_def deposit_row_def Let_def)

text \<open>
  C1, at a new wallet (balance 0, no transactions, so the balance equals the sum over
  its completed transactions) and one deposit of 5000.00 with reference \<^verbatim>\<open>DEP-ABC123\<close>:
  the deposit goes through and the balance is 5000, but the row it wrote has status
  \<^verbatim>\<open>SUCCESS\<close>, so the signed effects of the wallet's \<^verbatim>\<open>COMPLETED\<close> transactions still add up
  to 0. The balance equals the sum over the rows with status \<^verbatim>\<open>SUCCESS\<close> instead.
\<close>

theorem deposit_leaves_completed_total_behind:
  "balance alice = ledger_total ''COMPLETED'' \<lparr>wallets = [alice], transactions = []\<rparr> (pk alice)
   \<and> create_deposit ''0f1e2d3c4b5a69788796a5b4c3d2e1f0'' ''Q7W8E9R0T1''
        \<lparr>wallets = [alice], transactions = []\<rparr> alice 5000 (Some ''DEP-ABC123'') PyNone
       = Inr (deposit_row, alice\<lparr>balance := 5000\<rparr>,
              \<lparr>wallets = [alice\<lparr>balance := 5000\<rparr>], transactions = [deposit_row]\<rparr>)
   \<and> balance (alice\<lparr>balance := 5000\<rparr>) = 5000
   \<and> ledger_total ''COMPLETED''
        \<lparr>wallets = [alice\<lparr>balance := 5000\<rparr>], transactions = [deposit_row]\<rparr> (pk alice) = 0
   \<and> ledger_total ''SUCCESS''
        \<lparr>wallets = [alice\<lparr>balance := 5000\<rparr>], transactions = [deposit_row]\<rparr> (pk alice) = 5000"
  by (simp add: deposit_example)
    (simp add: ledger_total_def signed_effect_def alice_def deposit_row_def)

text \<open>
  C4, at the same deposit: the transaction created has status \<^verbatim>\<open>SUCCESS\<close>, which is not
  \<^verbatim>\<open>COMPLETED\<close> (nor any member of \<^verbatim>\<open>Transaction.TransactionStatus\<close>). And at a deposit of
  -5000.00: nothing rejects the amount; the transaction is created and the balance goes
  from 0 to -5000.
\<close>

theorem deposit_status_and_negative_amount:
  "create_deposit ''0f1e2d3c4b5a69788796a5b4c3d2e1f0'' ''Q7W8E9R0T1''
      \<lparr>wallets = [alice], transactions = []\<rparr> alice 5000 (Some ''DEP-ABC123'') PyNone
     = Inr (deposit_row, alice\<lparr>balance := 5000\<rparr>,
            \<lparr>wallets = [alice\<lparr>balance := 5000\<rparr>], transactions = [deposit_row]\<rparr>)
   \<and> status deposit_row = ''SUCCESS''
   \<and> status deposit_row \<notin> {''PENDING'', ''COMPLETED'', ''FAILED'', ''REVERSED''}
   \<and> create_deposit ''0f1e2d3c4b5a69788796a5b4c3d2e1f0'' ''Q7W8E9R0T1''
        \<lparr>wallets = [alice], transactions = []\<rparr> alice (- 5000) (Some ''DEP-ABC123'') PyNone
       = Inr (deposit_row\<lparr>amount := - 5000\<rparr>, alice\<lparr>balance := - 5000\<rparr>,
              \<lparr>wallets = [alice\<lparr>balance := - 5000\<rparr>],
               transactions = [deposit_row\<lparr>amount := - 5000\<rparr>]\<rparr>)"
  by (simp add: deposit_example)
    (simp add: create_deposit_def Transaction_create_def Wallet_save_def write_row_def
      alice_def deposit_row_def Let_def)

end
